theory Spec2Isabelle
  imports Complex_Main "HOL-Library.Word"
begin

section \<open>Raster buffers and the 2D canvas operations used by the generator\<close>

text \<open>
  \<^verbatim>\<open>forge_scripts/diagonal-generator.js\<close> works on HTML canvases. A canvas is a bitmap of
  RGBA pixels with a width and a height; a fresh canvas, and a canvas whose width or
  height is assigned, is transparent black everywhere. A source image is given as the
  canvas that holds its pixels. JavaScript numbers are modelled as exact real numbers
  (the pixel values computed below use the shear amounts 0 and 1/4, which binary floating
  point represents exactly).
\<close>

datatype pixel = RGBA (red: "8 word") (green: "8 word") (blue: "8 word") (alpha: "8 word")

definition transparent :: pixel where
  "transparent = RGBA 0 0 0 0"

record canvas =
  width :: nat
  height :: nat
  bitmap :: "nat \<Rightarrow> nat \<Rightarrow> pixel"

text \<open>Exceptions the JavaScript runtime and the canvas API raise in this file.\<close>

datatype error = TypeError | InvalidStateError

text \<open>Reading a pixel as \<^verbatim>\<open>getImageData\<close> does: transparent black outside the bitmap.\<close>

definition getPixel :: "canvas \<Rightarrow> nat \<Rightarrow> nat \<Rightarrow> pixel" where
  "getPixel cv x y = (if x < width cv \<and> y < height cv then bitmap cv x y else transparent)"

text \<open>\<^verbatim>\<open>document.createElement('canvas')\<close>: 300 by 150, transparent.\<close>

definition createElement :: canvas where
  "createElement = \<lparr>width = 300, height = 150, bitmap = \<lambda>x y. transparent\<rparr>"

text \<open>
  Assigning \<^verbatim>\<open>canvas.width\<close> or \<^verbatim>\<open>canvas.height\<close> keeps the integer part of the number
  and clears the bitmap.
\<close>

definition set_width :: "canvas \<Rightarrow> real \<Rightarrow> canvas" where
  "set_width cv v = cv\<lparr>width := nat \<lfloor>v\<rfloor>, bitmap := \<lambda>x y. transparent\<rparr>"

definition set_height :: "canvas \<Rightarrow> real \<Rightarrow> canvas" where
  "set_height cv v = cv\<lparr>height := nat \<lfloor>v\<rfloor>, bitmap := \<lambda>x y. transparent\<rparr>"

text \<open>
  The current transformation matrix \<^verbatim>\<open>(a, b, c, d, e, f)\<close> of a 2D context maps a point
  as the comment in \<^verbatim>\<open>applyShearTransform\<close> says:
  \<^verbatim>\<open>x' = a*x + c*y + e, y' = b*x + d*y + f\<close>.
\<close>

record matrix =
  m_a :: real
  m_b :: real
  m_c :: real
  m_d :: real
  m_e :: real
  m_f :: real

definition identity :: matrix where
  "identity = \<lparr>m_a = 1, m_b = 0, m_c = 0, m_d = 1, m_e = 0, m_f = 0\<rparr>"

definition apply_matrix :: "matrix \<Rightarrow> real \<times> real \<Rightarrow> real \<times> real" where
  "apply_matrix m p =
     (case p of (x, y) \<Rightarrow> (m_a m * x + m_c m * y + m_e m, m_b m * x + m_d m * y + m_f m))"

definition multiply :: "matrix \<Rightarrow> matrix \<Rightarrow> matrix" where
  "multiply m n =
     \<lparr>m_a = m_a m * m_a n + m_c m * m_b n,
      m_b = m_b m * m_a n + m_d m * m_b n,
      m_c = m_a m * m_c n + m_c m * m_d n,
      m_d = m_b m * m_c n + m_d m * m_d n,
      m_e = m_a m * m_e n + m_c m * m_f n + m_e m,
      m_f = m_b m * m_e n + m_d m * m_f n + m_f m\<rparr>"

text \<open>The point that a matrix maps to \<open>p\<close>; none when the matrix is singular.\<close>

definition unmap :: "matrix \<Rightarrow> real \<times> real \<Rightarrow> (real \<times> real) option" where
  "unmap m p =
     (case p of (x', y') \<Rightarrow>
        let det = m_a m * m_d m - m_b m * m_c m in
        if det = 0 then None
        else Some ((m_d m * (x' - m_e m) - m_c m * (y' - m_f m)) / det,
                   (m_a m * (y' - m_f m) - m_b m * (x' - m_e m)) / det))"

record context2d =
  canvas_of :: canvas
  ctm :: matrix
  imageSmoothingEnabled :: bool

definition getContext :: "canvas \<Rightarrow> context2d" where
  "getContext cv = \<lparr>canvas_of = cv, ctm = identity, imageSmoothingEnabled = True\<rparr>"

text \<open>\<^verbatim>\<open>ctx.transform(a, b, c, d, e, f)\<close> multiplies the current matrix on the right.\<close>

definition transform :: "context2d \<Rightarrow> real \<Rightarrow> real \<Rightarrow> real \<Rightarrow> real \<Rightarrow> real \<Rightarrow> real \<Rightarrow> context2d" where
  "transform ctx a b c d e f =
     ctx\<lparr>ctm := multiply (ctm ctx) \<lparr>m_a = a, m_b = b, m_c = c, m_d = d, m_e = e, m_f = f\<rparr>\<rparr>"

text \<open>
  \<^verbatim>\<open>ctx.drawImage(image, sx, sy, sw, sh, dx, dy, dw, dh)\<close>. The pixel of the target at
  \<open>(px, py)\<close> takes the colour of the source pixel under the preimage of its centre:
  the centre is taken back through the current matrix, must fall in the destination
  rectangle, is carried to the source rectangle, and the source pixel containing that
  point is read (nearest neighbour). A target pixel whose preimage is outside the
  rectangle or outside the source bitmap is not touched. Every \<^verbatim>\<open>drawImage\<close> of this
  file draws on a fresh transparent canvas, so compositing is a plain store. Smoothing is
  enabled (the default) only where the file copies at unit scale; the copy is on whole
  pixels whenever the sheet's height is a multiple of 4, and filtering returns the source
  colour there, so the flag does not enter the sampling. A canvas source with a zero
  dimension raises \<^verbatim>\<open>InvalidStateError\<close>; a zero-sized source rectangle draws nothing.
\<close>

definition sample ::
  "matrix \<Rightarrow> canvas \<Rightarrow> real \<Rightarrow> real \<Rightarrow> real \<Rightarrow> real \<Rightarrow> real \<Rightarrow> real \<Rightarrow> real \<Rightarrow> real \<Rightarrow> nat \<Rightarrow> nat \<Rightarrow> pixel option" where
  "sample m img sx sy sw sh dx dy dw dh px py =
     (case unmap m (of_nat px + 1 / 2, of_nat py + 1 / 2) of
        None \<Rightarrow> None
      | Some (ux, uy) \<Rightarrow>
          if dx \<le> ux \<and> ux < dx + dw \<and> dy \<le> uy \<and> uy < dy + dh then
            let ix = \<lfloor>sx + (ux - dx) * sw / dw\<rfloor>; iy = \<lfloor>sy + (uy - dy) * sh / dh\<rfloor> in
            if 0 \<le> ix \<and> ix < int (width img) \<and> 0 \<le> iy \<and> iy < int (height img)
            then Some (bitmap img (nat ix) (nat iy))
            else None
          else None)"

definition drawImage9 ::
  "context2d \<Rightarrow> canvas \<Rightarrow> real \<Rightarrow> real \<Rightarrow> real \<Rightarrow> real \<Rightarrow> real \<Rightarrow> real \<Rightarrow> real \<Rightarrow> real \<Rightarrow> error + context2d" where
  "drawImage9 ctx img sx sy sw sh dx dy dw dh =
     (if width img = 0 \<or> height img = 0 then Inl InvalidStateError
      else if sw = 0 \<or> sh = 0 then Inr ctx
      else Inr (ctx\<lparr>canvas_of := (canvas_of ctx)\<lparr>bitmap := \<lambda>px py.
             if px < width (canvas_of ctx) \<and> py < height (canvas_of ctx) then
               (case sample (ctm ctx) img sx sy sw sh dx dy dw dh px py of
                  Some p \<Rightarrow> p
                | None \<Rightarrow> bitmap (canvas_of ctx) px py)
             else bitmap (canvas_of ctx) px py\<rparr>\<rparr>))"

text \<open>\<^verbatim>\<open>ctx.drawImage(img, dx, dy)\<close>: the whole source at its own size.\<close>

definition drawImage :: "context2d \<Rightarrow> canvas \<Rightarrow> real \<Rightarrow> real \<Rightarrow> error + context2d" where
  "drawImage ctx img dx dy =
     drawImage9 ctx img 0 0 (of_nat (width img)) (of_nat (height img))
       dx dy (of_nat (width img)) (of_nat (height img))"

section \<open>The generator\<close>

definition DIAGONAL_SHEAR_AMOUNT :: real where
  "DIAGONAL_SHEAR_AMOUNT = 15 / 100"

definition extractRow :: "canvas \<Rightarrow> nat \<Rightarrow> error + canvas" where
  "extractRow sourceCanvas rowIndex =
     (let w = width sourceCanvas;
          h = height sourceCanvas;
          rowHeight = (of_nat h / 4 :: real);
          rowCanvas = set_height (set_width createElement (of_nat w)) rowHeight;
          ctx = getContext rowCanvas
      in case drawImage9 ctx sourceCanvas
                0 (of_nat rowIndex * rowHeight) (of_nat w) rowHeight
                0 0 (of_nat w) rowHeight of
           Inl err \<Rightarrow> Inl err
         | Inr ctx' \<Rightarrow> Inr (canvas_of ctx'))"

definition applyShearTransform :: "canvas \<Rightarrow> string \<Rightarrow> real \<Rightarrow> error + canvas" where
  "applyShearTransform sourceCanvas direction shearAmount =
     (let w = width sourceCanvas;
          h = height sourceCanvas;
          outputCanvas = set_height (set_width createElement (of_nat w)) (of_nat h);
          ctx = getContext outputCanvas;
          ctx1 = (if direction = ''ne'' \<or> direction = ''se''
                  then transform ctx 1 shearAmount 0 1 0 0
                  else let offset = of_nat w * shearAmount
                       in transform ctx 1 (- shearAmount) 0 1 offset 0);
          ctx2 = ctx1\<lparr>imageSmoothingEnabled := False\<rparr>
      in case drawImage ctx2 sourceCanvas 0 0 of
           Inl err \<Rightarrow> Inl err
         | Inr ctx' \<Rightarrow> Inr (canvas_of ctx'))"

text \<open>
  The exported functions take the source image (absent when the caller passes
  \<^verbatim>\<open>null\<close> or \<^verbatim>\<open>undefined\<close>, where reading \<^verbatim>\<open>img.width\<close> raises \<^verbatim>\<open>TypeError\<close>) and an
  optional shear amount with default \<^verbatim>\<open>DIAGONAL_SHEAR_AMOUNT\<close>. They return the result
  together with the lines written by \<^verbatim>\<open>console.warn\<close>.
\<close>

definition or_default :: "real option \<Rightarrow> real \<Rightarrow> real" where
  "or_default arg dflt = (case arg of None \<Rightarrow> dflt | Some v \<Rightarrow> v)"

definition lpc_warning :: string where
  "lpc_warning = ''Not a standard LPC 4-row format, applying transformation to entire image''"

definition generateDiagonal ::
  "canvas option \<Rightarrow> string \<Rightarrow> real option \<Rightarrow> (error + canvas) \<times> string list" where
  "generateDiagonal sourceImage direction shearAmount_arg =
     (let shearAmount = or_default shearAmount_arg DIAGONAL_SHEAR_AMOUNT
      in case sourceImage of
           None \<Rightarrow> (Inl TypeError, [])
         | Some img \<Rightarrow>
             let w = width img;
                 h = height img;
                 sourceCtx = getContext (set_height (set_width createElement (of_nat w)) (of_nat h))
             in case drawImage sourceCtx img 0 0 of
                  Inl err \<Rightarrow> (Inl err, [])
                | Inr sourceCtx' \<Rightarrow>
                    let sourceCanvas = canvas_of sourceCtx';
                        isLPCFormat = (h mod 4 = 0 \<and> 256 \<le> h)
                    in if \<not> isLPCFormat
                       then (applyShearTransform sourceCanvas direction shearAmount, [lpc_warning])
                       else (case (if direction = ''ne'' \<or> direction = ''nw''
                                   then extractRow sourceCanvas 2
                                   else extractRow sourceCanvas 0) of
                               Inl err \<Rightarrow> (Inl err, [])
                             | Inr baseRow \<Rightarrow>
                                 (applyShearTransform baseRow direction shearAmount, [])))"

text \<open>
  Sequencing of calls that may throw and may warn: the first exception ends the
  evaluation, the warnings written so far stay written.
\<close>

definition and_then ::
  "(error + 'a) \<times> string list \<Rightarrow> ('a \<Rightarrow> (error + 'b) \<times> string list) \<Rightarrow> (error + 'b) \<times> string list" where
  "and_then m k =
     (case m of
        (Inl err, out) \<Rightarrow> (Inl err, out)
      | (Inr v, out) \<Rightarrow> (case k v of (r, out') \<Rightarrow> (r, out @ out')))"

definition quiet :: "error + 'a \<Rightarrow> (error + 'a) \<times> string list" where
  "quiet r = (r, [])"

text \<open>An object literal is the list of its properties in the order they are written.\<close>

definition generateAllDiagonals ::
  "canvas option \<Rightarrow> real option \<Rightarrow> (error + (string \<times> canvas) list) \<times> string list" where
  "generateAllDiagonals sourceImage shearAmount_arg =
     (let shearAmount = or_default shearAmount_arg DIAGONAL_SHEAR_AMOUNT
      in and_then (generateDiagonal sourceImage ''ne'' (Some shearAmount)) (\<lambda>ne.
         and_then (generateDiagonal sourceImage ''nw'' (Some shearAmount)) (\<lambda>nw.
         and_then (generateDiagonal sourceImage ''se'' (Some shearAmount)) (\<lambda>se.
         and_then (generateDiagonal sourceImage ''sw'' (Some shearAmount)) (\<lambda>sw.
         quiet (Inr [(''ne'', ne), (''nw'', nw), (''se'', se), (''sw'', sw)]))))))"

definition generateAll8Directions ::
  "canvas option \<Rightarrow> real option \<Rightarrow> (error + (string \<times> canvas) list) \<times> string list" where
  "generateAll8Directions sourceImage shearAmount_arg =
     (let shearAmount = or_default shearAmount_arg DIAGONAL_SHEAR_AMOUNT
      in case sourceImage of
           None \<Rightarrow> (Inl TypeError, [])
         | Some img \<Rightarrow>
             let sourceCtx = getContext (set_height (set_width createElement (of_nat (width img)))
                                           (of_nat (height img)))
             in and_then (quiet (drawImage sourceCtx img 0 0)) (\<lambda>sourceCtx'.
                let sourceCanvas = canvas_of sourceCtx' in
                and_then (quiet (extractRow sourceCanvas 2)) (\<lambda>n.
                and_then (quiet (extractRow sourceCanvas 3)) (\<lambda>e.
                and_then (quiet (extractRow sourceCanvas 0)) (\<lambda>s.
                and_then (quiet (extractRow sourceCanvas 1)) (\<lambda>w.
                and_then (generateDiagonal sourceImage ''ne'' (Some shearAmount)) (\<lambda>ne.
                and_then (generateDiagonal sourceImage ''nw'' (Some shearAmount)) (\<lambda>nw.
                and_then (generateDiagonal sourceImage ''se'' (Some shearAmount)) (\<lambda>se.
                and_then (generateDiagonal sourceImage ''sw'' (Some shearAmount)) (\<lambda>sw.
                quiet (Inr [(''n'', n), (''e'', e), (''s'', s), (''w'', w),
                            (''ne'', ne), (''nw'', nw), (''se'', se), (''sw'', sw)])))))))))))"

section \<open>Notions used to state the properties\<close>

text \<open>The visible content of a canvas: its bitmap inside the bounds, transparent outside.\<close>

definition snapshot :: "canvas \<Rightarrow> canvas" where
  "snapshot cv = \<lparr>width = width cv, height = height cv, bitmap = getPixel cv\<rparr>"

text \<open>A buffer that reads the same from the left and from the right.\<close>

definition hsymmetric :: "canvas \<Rightarrow> bool" where
  "hsymmetric cv =
     (\<forall>x \<in> {..<width cv}. \<forall>y \<in> {..<height cv}.
        bitmap cv x y = bitmap cv (width cv - 1 - x) y)"

text \<open>Two buffers of the same size, each the left-right flip of the other.\<close>

definition mirror_images :: "canvas \<Rightarrow> canvas \<Rightarrow> bool" where
  "mirror_images p q =
     (width p = width q \<and> height p = height q \<and>
      (\<forall>x \<in> {..<width p}. \<forall>y \<in> {..<height p}.
         bitmap q x y = bitmap p (width p - 1 - x) y))"

subsection \<open>Concrete buffers\<close>

definition black :: pixel where
  "black = RGBA 0 0 0 255"

text \<open>An 8 by 8 buffer with one opaque pixel, at column 4 of row 4.\<close>

definition dot8 :: canvas where
  "dot8 = \<lparr>width = 8, height = 8,
           bitmap = \<lambda>x y. if x = 4 \<and> y = 4 then black else transparent\<rparr>"

text \<open>A 4 by 2 buffer, opaque everywhere.\<close>

definition solid4 :: canvas where
  "solid4 = \<lparr>width = 4, height = 2, bitmap = \<lambda>x y. black\<rparr>"

text \<open>A sheet in the LPC layout, 2 by 256: four rows of height 64, each pixel tagged by its position.\<close>

definition sheet256 :: canvas where
  "sheet256 = \<lparr>width = 2, height = 256, bitmap = \<lambda>x y. RGBA (of_nat x) (of_nat y) 0 255\<rparr>"

text \<open>A 3 by 5 buffer, which is not in the LPC layout.\<close>

definition strip5 :: canvas where
  "strip5 = \<lparr>width = 3, height = 5, bitmap = \<lambda>x y. RGBA (of_nat x) (of_nat y) 0 255\<rparr>"


text \<open>A canvas with no pixels.\<close>

definition empty_canvas :: canvas where
  "empty_canvas = \<lparr>width = 0, height = 0, bitmap = \<lambda>x y. transparent\<rparr>"

section \<open>What the canvas operations compute\<close>

lemma sized_canvas:
  "set_height (set_width createElement (of_nat w)) (of_nat h) =
     \<lparr>width = w, height = h, bitmap = \<lambda>x y. transparent\<rparr>"
  by (simp add: set_height_def set_width_def createElement_def)

lemma floor_centre: "\<lfloor>real n + 1 / 2\<rfloor> = int n"
  by linarith

lemma unmap_identity: "unmap identity p = Some p"
  by (cases p) (simp add: unmap_def identity_def)

lemma sample_snapshot:
  "sample m (snapshot img) sx sy sw sh dx dy dw dh px py = sample m img sx sy sw sh dx dy dw dh px py"
  by (simp add: sample_def snapshot_def getPixel_def Let_def nat_less_iff split: option.splits)

lemma drawImage9_snapshot:
  "drawImage9 ctx (snapshot img) sx sy sw sh dx dy dw dh = drawImage9 ctx img sx sy sw sh dx dy dw dh"
  by (simp add: drawImage9_def sample_snapshot cong: if_cong) (simp add: snapshot_def)

lemma drawImage_snapshot: "drawImage ctx (snapshot img) dx dy = drawImage ctx img dx dy"
  by (simp add: drawImage_def drawImage9_snapshot) (simp add: snapshot_def)

lemma extractRow_snapshot: "extractRow (snapshot cv) r = extractRow cv r"
  by (simp add: extractRow_def drawImage9_snapshot) (simp add: snapshot_def)

lemma applyShearTransform_snapshot: "applyShearTransform (snapshot cv) d s = applyShearTransform cv d s"
  by (simp add: applyShearTransform_def drawImage_snapshot) (simp add: snapshot_def)

lemma sample_copy:
  assumes "px < width img" "py < height img"
  shows "sample identity img 0 0 (real (width img)) (real (height img)) 0 0
           (real (width img)) (real (height img)) px py = Some (bitmap img px py)"
  using assms by (simp add: sample_def unmap_identity floor_centre)

lemma copy_canvas:
  assumes "0 < width img" "0 < height img"
  shows "drawImage (getContext (set_height (set_width createElement (of_nat (width img))) (of_nat (height img)))) img 0 0
         = Inr (getContext (snapshot img))"
  using assms
  by (simp add: drawImage_def drawImage9_def sized_canvas getContext_def snapshot_def getPixel_def sample_copy fun_eq_iff cong: if_cong)

lemma sample_right:
  assumes "0 < width cv" "0 < height cv"
  shows "sample \<lparr>m_a = 1, m_b = s, m_c = 0, m_d = 1, m_e = 0, m_f = 0\<rparr> cv 0 0 (real (width cv)) (real (height cv))
           0 0 (real (width cv)) (real (height cv)) x y =
         (if x < width cv \<and> 0 \<le> real y + 1 / 2 - s * (real x + 1 / 2)
              \<and> real y + 1 / 2 - s * (real x + 1 / 2) < real (height cv)
          then Some (bitmap cv x (nat \<lfloor>real y + 1 / 2 - s * (real x + 1 / 2)\<rfloor>))
          else None)"
  using assms
  by (simp add: sample_def unmap_def floor_centre floor_less_iff)

lemma applyShearTransform_right:
  assumes "0 < width cv" "0 < height cv" "d = ''ne'' \<or> d = ''se''"
  shows "applyShearTransform cv d s =
     Inr \<lparr>width = width cv, height = height cv,
          bitmap = \<lambda>x y.
            if x < width cv \<and> y < height cv
               \<and> 0 \<le> real y + 1 / 2 - s * (real x + 1 / 2)
               \<and> real y + 1 / 2 - s * (real x + 1 / 2) < real (height cv)
            then bitmap cv x (nat \<lfloor>real y + 1 / 2 - s * (real x + 1 / 2)\<rfloor>)
            else transparent\<rparr>"
proof -
  have m: "ctm (transform (getContext c0) 1 s 0 1 0 0) = \<lparr>m_a = 1, m_b = s, m_c = 0, m_d = 1, m_e = 0, m_f = 0\<rparr>" for c0
    by (simp add: transform_def getContext_def multiply_def identity_def)
  show ?thesis
    using assms
    by (auto simp add: applyShearTransform_def drawImage_def drawImage9_def sized_canvas m sample_right fun_eq_iff
          transform_def getContext_def Let_def multiply_def identity_def)
qed

lemma sample_left:
  assumes "0 < width cv" "0 < height cv"
  shows "sample \<lparr>m_a = 1, m_b = - s, m_c = 0, m_d = 1, m_e = t, m_f = 0\<rparr> cv 0 0 (real (width cv)) (real (height cv))
           0 0 (real (width cv)) (real (height cv)) x y =
         (if 0 \<le> real x + 1 / 2 - t \<and> real x + 1 / 2 - t < real (width cv)
              \<and> 0 \<le> real y + 1 / 2 + s * (real x + 1 / 2 - t)
              \<and> real y + 1 / 2 + s * (real x + 1 / 2 - t) < real (height cv)
          then Some (bitmap cv (nat \<lfloor>real x + 1 / 2 - t\<rfloor>) (nat \<lfloor>real y + 1 / 2 + s * (real x + 1 / 2 - t)\<rfloor>))
          else None)"
  using assms
  by (simp add: sample_def unmap_def floor_less_iff)

lemma applyShearTransform_left:
  assumes "0 < width cv" "0 < height cv" "d \<noteq> ''ne''" "d \<noteq> ''se''"
  shows "applyShearTransform cv d s =
     Inr \<lparr>width = width cv, height = height cv,
          bitmap = \<lambda>x y.
            if x < width cv \<and> y < height cv
               \<and> 0 \<le> real x + 1 / 2 - real (width cv) * s
               \<and> real x + 1 / 2 - real (width cv) * s < real (width cv)
               \<and> 0 \<le> real y + 1 / 2 + s * (real x + 1 / 2 - real (width cv) * s)
               \<and> real y + 1 / 2 + s * (real x + 1 / 2 - real (width cv) * s) < real (height cv)
            then bitmap cv (nat \<lfloor>real x + 1 / 2 - real (width cv) * s\<rfloor>)
                   (nat \<lfloor>real y + 1 / 2 + s * (real x + 1 / 2 - real (width cv) * s)\<rfloor>)
            else transparent\<rparr>"
  using assms
  by (auto simp add: applyShearTransform_def drawImage_def drawImage9_def sized_canvas sample_left fun_eq_iff
          transform_def getContext_def Let_def multiply_def identity_def)

lemma row_canvas:
  assumes "4 dvd h"
  shows "set_height (set_width createElement (of_nat w)) (real h / 4) =
     \<lparr>width = w, height = h div 4, bitmap = \<lambda>x y. transparent\<rparr>"
proof -
  have "real h / 4 = real (h div 4)"
    using assms by (simp add: real_of_nat_div)
  then show ?thesis
    by (simp add: set_height_def set_width_def createElement_def)
qed

lemma sample_unit:
  assumes "0 < dw" "0 < dh"
  shows "sample identity cv sx sy dw dh 0 0 dw dh x y =
     (if real x + 1 / 2 < dw \<and> real y + 1 / 2 < dh then
        (if 0 \<le> \<lfloor>sx + (real x + 1 / 2)\<rfloor> \<and> \<lfloor>sx + (real x + 1 / 2)\<rfloor> < int (width cv)
            \<and> 0 \<le> \<lfloor>sy + (real y + 1 / 2)\<rfloor> \<and> \<lfloor>sy + (real y + 1 / 2)\<rfloor> < int (height cv)
         then Some (bitmap cv (nat \<lfloor>sx + (real x + 1 / 2)\<rfloor>) (nat \<lfloor>sy + (real y + 1 / 2)\<rfloor>))
         else None)
      else None)"
  using assms by (simp add: sample_def unmap_identity Let_def)

lemma sample_row:
  assumes "4 dvd height cv" "0 < height cv" "0 < width cv" "r < 4" "x < width cv" "y < height cv div 4"
    and sy: "sy = real r * (real (height cv) / 4)"
  shows "sample identity cv 0 sy (real (width cv)) (real (height cv) / 4)
           0 0 (real (width cv)) (real (height cv) / 4) x y =
         Some (bitmap cv x (r * (height cv div 4) + y))"
proof -
  obtain k where k: "height cv = 4 * k" using assms(1) by (auto elim: dvdE)
  have kpos: "0 < k" using assms(2) k by simp
  have yk: "y < k" using assms(6) k by simp
  have hk: "real (height cv) / 4 = real k" using k by simp
  have fly: "\<lfloor>sy + (real y + 1 / 2)\<rfloor> = int (r * k + y)"
    unfolding sy hk by (simp add: floor_eq_iff)
  have flx: "\<lfloor>0 + (real x + 1 / 2)\<rfloor> = int x"
    by (simp add: floor_centre)
  have bound: "r * k + y < 4 * k"
  proof -
    have "r * k + y < r * k + k" using yk by simp
    also have "\<dots> = (r + 1) * k" by simp
    also have "\<dots> \<le> 4 * k" using assms(4) by (intro mult_le_mono1) simp
    finally show ?thesis .
  qed
  have inside: "int (r * k + y) < int (height cv)"
    using bound unfolding k by (simp only: of_nat_less_iff)
  have dims: "0 < real (width cv)" "0 < real k" "real x + 1 / 2 < real (width cv)" "real y + 1 / 2 < real k"
    using assms(3,5) kpos yk by simp_all
  have "sample identity cv 0 sy (real (width cv)) (real k) 0 0 (real (width cv)) (real k) x y =
         Some (bitmap cv x (r * k + y))"
    unfolding sample_unit [OF dims(1,2)] flx fly
    using dims(3,4) assms(5) inside by (simp only: nat_int of_nat_0_le_iff of_nat_less_iff if_True simp_thms)
  then show ?thesis
    unfolding hk using k by simp
qed

lemma extractRow_rows:
  assumes "4 dvd height cv" "0 < height cv" "0 < width cv" "r < 4"
  shows "extractRow cv r =
     Inr \<lparr>width = width cv, height = height cv div 4,
          bitmap = \<lambda>x y. if x < width cv \<and> y < height cv div 4
                          then bitmap cv x (r * (height cv div 4) + y) else transparent\<rparr>"
  using assms
  by (auto simp add: extractRow_def drawImage9_def row_canvas getContext_def sample_row fun_eq_iff Let_def)

lemma applyShearTransform_returns:
  assumes "0 < width cv" "0 < height cv"
  shows "\<exists>out. applyShearTransform cv d s = Inr out \<and> width out = width cv \<and> height out = height cv"
proof (cases "d = ''ne'' \<or> d = ''se''")
  case True
  then show ?thesis
    using applyShearTransform_right [OF assms, of d s] by simp
next
  case False
  then show ?thesis
    using applyShearTransform_left [OF assms, of d s] by simp
qed

lemma applyShearTransform_zero:
  assumes "0 < width cv" "0 < height cv"
  shows "applyShearTransform cv d 0 = Inr (snapshot cv)"
proof (cases "d = ''ne'' \<or> d = ''se''")
  case True
  then show ?thesis
    using applyShearTransform_right [OF assms, of d 0]
    by (simp add: snapshot_def getPixel_def fun_eq_iff floor_centre)
next
  case False
  then show ?thesis
    using applyShearTransform_left [OF assms, of d 0]
    by (simp add: snapshot_def getPixel_def fun_eq_iff floor_centre)
qed

lemma getPixel_snapshot: "getPixel (snapshot cv) x y = getPixel cv x y"
  by (simp add: snapshot_def getPixel_def)

section \<open>The shear transformer and the row extractor\<close>

text \<open>
  C8. For every buffer that has pixels, every direction token and every shear amount,
  \<^verbatim>\<open>applyShearTransform\<close> returns a buffer with the width and the height of its input.
  (A canvas without pixels is rejected by \<^verbatim>\<open>drawImage\<close>; the orchestrator never passes one.)
\<close>

theorem applyShearTransform_same_dimensions:
  assumes "0 < width cv" and "0 < height cv"
  shows "\<exists>out. applyShearTransform cv direction shearAmount = Inr out
           \<and> width out = width cv \<and> height out = height cv"
  using assms by (rule applyShearTransform_returns)

theorem applyShearTransform_same_dimensions_witness:
  "0 < width strip5 \<and> 0 < height strip5
   \<and> (\<exists>out. applyShearTransform strip5 ''nw'' (1 / 4) = Inr out \<and> width out = 3 \<and> height out = 5)"
  using applyShearTransform_same_dimensions [of strip5 "''nw''" "1 / 4"]
  by (simp add: strip5_def)

text \<open>
  C5. With shear amount 0 the transform is the identity on every buffer that has pixels,
  whatever the direction token: the output has the size of the input and reads the same
  at every position.
\<close>

theorem applyShearTransform_zero_is_identity:
  assumes "0 < width cv" and "0 < height cv"
  shows "\<exists>out. applyShearTransform cv direction 0 = Inr out
           \<and> width out = width cv \<and> height out = height cv
           \<and> (\<forall>x y. getPixel out x y = getPixel cv x y)"
  using applyShearTransform_zero [OF assms, of direction]
  by (simp add: getPixel_snapshot) (simp add: snapshot_def)

theorem applyShearTransform_zero_is_identity_witness:
  "0 < width strip5 \<and> 0 < height strip5
   \<and> (\<exists>out. applyShearTransform strip5 ''sw'' 0 = Inr out
         \<and> width out = 3 \<and> height out = 5 \<and> getPixel out 2 4 = RGBA 2 4 0 255)"
proof -
  have h: "0 < width strip5" "0 < height strip5"
    by (simp_all add: strip5_def)
  obtain out where o: "applyShearTransform strip5 ''sw'' 0 = Inr out"
      "width out = width strip5" "height out = height strip5"
      "\<forall>x y. getPixel out x y = getPixel strip5 x y"
    using applyShearTransform_zero_is_identity [OF h, of "''sw''"] by blast
  have "getPixel out 2 4 = getPixel strip5 2 4"
    using o(4) by blast
  also have "\<dots> = RGBA 2 4 0 255"
    by (simp add: strip5_def getPixel_def)
  finally have "getPixel out 2 4 = RGBA 2 4 0 255" .
  moreover have "width out = 3" "height out = 5"
    using o(2,3) by (simp_all add: strip5_def)
  ultimately show ?thesis
    using h o(1) by blast
qed

text \<open>
  C4. For a sheet with pixels whose height is a multiple of 4 and a row index from 0 to 3,
  \<^verbatim>\<open>extractRow\<close> returns a buffer of the sheet's width and a quarter of its height, whose
  pixel at \<open>(x, y)\<close> is the sheet's pixel at \<open>(x, rowIndex * rowHeight + y)\<close>: a plain crop.
\<close>

theorem extractRow_is_crop:
  assumes "4 dvd height sheet" and "0 < height sheet" and "0 < width sheet" and "rowIndex < 4"
  shows "\<exists>out. extractRow sheet rowIndex = Inr out
           \<and> width out = width sheet \<and> height out = height sheet div 4
           \<and> (\<forall>x y. getPixel out x y =
                 (if x < width sheet \<and> y < height sheet div 4
                  then getPixel sheet x (rowIndex * (height sheet div 4) + y)
                  else transparent))"
proof -
  have inside: "rowIndex * (height sheet div 4) + y < height sheet" if "y < height sheet div 4" for y
  proof -
    obtain k where k: "height sheet = 4 * k" using assms(1) by (auto elim: dvdE)
    have "rowIndex * k + y < rowIndex * k + k" using that k by simp
    also have "\<dots> = (rowIndex + 1) * k" by simp
    also have "\<dots> \<le> 4 * k" using assms(4) by (intro mult_le_mono1) simp
    finally show ?thesis using k by simp
  qed
  show ?thesis
    using extractRow_rows [OF assms] inside
    by (simp add: getPixel_def)
qed

theorem extractRow_is_crop_witness:
  "4 dvd height sheet256 \<and> 0 < height sheet256 \<and> 0 < width sheet256 \<and> (2::nat) < 4
   \<and> (\<exists>out. extractRow sheet256 2 = Inr out \<and> width out = 2 \<and> height out = 64
         \<and> getPixel out 1 3 = RGBA 1 131 0 255)"
proof -
  have h: "4 dvd height sheet256" "0 < height sheet256" "0 < width sheet256" "(2::nat) < 4"
    by (simp_all add: sheet256_def)
  obtain out where o: "extractRow sheet256 2 = Inr out"
      "width out = width sheet256" "height out = height sheet256 div 4"
      "\<forall>x y. getPixel out x y =
         (if x < width sheet256 \<and> y < height sheet256 div 4
          then getPixel sheet256 x (2 * (height sheet256 div 4) + y) else transparent)"
    using extractRow_is_crop [OF h] by blast
  have "getPixel out 1 3 =
         (if 1 < width sheet256 \<and> 3 < height sheet256 div 4
          then getPixel sheet256 1 (2 * (height sheet256 div 4) + 3) else transparent)"
    using o(4) by blast
  also have "\<dots> = RGBA 1 131 0 255"
    by (simp add: sheet256_def getPixel_def)
  finally have "getPixel out 1 3 = RGBA 1 131 0 255" .
  moreover have "width out = 2" "height out = 64"
    using o(2,3) by (simp_all add: sheet256_def)
  ultimately show ?thesis
    using h o(1) by blast
qed

section \<open>The orchestrator\<close>

lemma canvas_of_getContext: "canvas_of (getContext cv) = cv"
  by (simp add: getContext_def)

lemma generateDiagonal_absent: "generateDiagonal None d s = (Inl TypeError, [])"
  by (simp add: generateDiagonal_def)

lemma drawImage_empty:
  assumes "width img = 0 \<or> height img = 0"
  shows "drawImage ctx img dx dy = Inl InvalidStateError"
  using assms by (auto simp add: drawImage_def drawImage9_def)

lemma extractRow_empty:
  assumes "width cv = 0 \<or> height cv = 0"
  shows "extractRow cv r = Inl InvalidStateError"
  using assms by (auto simp add: extractRow_def drawImage9_def)

lemma generateDiagonal_empty:
  assumes "width cv = 0 \<or> height cv = 0"
  shows "generateDiagonal (Some cv) d s = (Inl InvalidStateError, [])"
  by (simp add: generateDiagonal_def drawImage_empty [OF assms])

lemma generateDiagonal_fallback:
  assumes "0 < width cv" "0 < height cv" "\<not> (height cv mod 4 = 0 \<and> 256 \<le> height cv)"
  shows "generateDiagonal (Some cv) d s =
           (applyShearTransform cv d (or_default s DIAGONAL_SHEAR_AMOUNT), [lpc_warning])"
  using assms(3)
  by (simp add: generateDiagonal_def Let_def copy_canvas [OF assms(1,2)] canvas_of_getContext
        applyShearTransform_snapshot)

lemma generateDiagonal_lpc:
  assumes "height cv mod 4 = 0" "256 \<le> height cv"
  shows "generateDiagonal (Some cv) d s =
           (case (if d = ''ne'' \<or> d = ''nw'' then extractRow cv 2 else extractRow cv 0) of
              Inl err \<Rightarrow> (Inl err, [])
            | Inr baseRow \<Rightarrow> (applyShearTransform baseRow d (or_default s DIAGONAL_SHEAR_AMOUNT), []))"
proof (cases "width cv = 0")
  case True
  then show ?thesis
    by (simp add: generateDiagonal_empty extractRow_empty)
next
  case False
  then have ne: "0 < width cv" "0 < height cv"
    using assms(2) by simp_all
  show ?thesis
    using assms
    by (simp add: generateDiagonal_def Let_def copy_canvas [OF ne] canvas_of_getContext
          extractRow_snapshot)
qed

lemma extractRow_returns:
  assumes "0 < width cv" "0 < height cv"
  shows "\<exists>out. extractRow cv r = Inr out \<and> width out = width cv
           \<and> height out = nat \<lfloor>real (height cv) / 4\<rfloor>"
  using assms
  by (simp add: extractRow_def drawImage9_def getContext_def set_height_def set_width_def
        createElement_def Let_def)

lemma generateDiagonal_returns:
  assumes "0 < width cv" "0 < height cv"
  shows "\<exists>out. generateDiagonal (Some cv) d s = (Inr out, if height cv mod 4 = 0 \<and> 256 \<le> height cv then [] else [lpc_warning])"
proof (cases "height cv mod 4 = 0 \<and> 256 \<le> height cv")
  case True
  define r :: nat where "r = (if d = ''ne'' \<or> d = ''nw'' then 2 else 0)"
  obtain row where row: "extractRow cv r = Inr row" "width row = width cv"
      "height row = nat \<lfloor>real (height cv) / 4\<rfloor>"
    using extractRow_returns [OF assms, of r] by blast
  have "height row = height cv div 4"
    using row(3) floor_divide_of_nat_eq [where ?'a = real, of "height cv" 4] by simp
  then have "0 < height row"
    using True by arith
  then obtain out where "applyShearTransform row d (or_default s DIAGONAL_SHEAR_AMOUNT) = Inr out"
    using applyShearTransform_returns [of row] row(2) assms(1) by auto
  then show ?thesis
    using True row(1) generateDiagonal_lpc [of cv d s]
    by (auto simp add: r_def split: if_splits)
next
  case False
  obtain out where "applyShearTransform cv d (or_default s DIAGONAL_SHEAR_AMOUNT) = Inr out"
    using applyShearTransform_returns [OF assms] by blast
  then show ?thesis
    using False generateDiagonal_fallback [OF assms False, of d s] by simp
qed

lemma applyShearTransform_other_token:
  assumes "d \<noteq> ''ne''" "d \<noteq> ''se''"
  shows "applyShearTransform cv d s = applyShearTransform cv ''sw'' s"
  using assms by (simp add: applyShearTransform_def)

text \<open>
  C2. On a sheet in the LPC layout (height a multiple of 4 and at least 256),
  \<^verbatim>\<open>generateDiagonal\<close> shears the North row (index 2) for \<^verbatim>\<open>ne\<close> and \<^verbatim>\<open>nw\<close>, and the South
  row (index 0) for \<^verbatim>\<open>se\<close> and \<^verbatim>\<open>sw\<close>: its result is \<^verbatim>\<open>applyShearTransform\<close> of that row.
\<close>

theorem generateDiagonal_row_selection:
  assumes "height sheet mod 4 = 0" and "256 \<le> height sheet"
  shows "(direction = ''ne'' \<or> direction = ''nw'' \<longrightarrow>
            generateDiagonal (Some sheet) direction shearAmount =
              (case extractRow sheet 2 of
                 Inl err \<Rightarrow> (Inl err, [])
               | Inr north \<Rightarrow>
                   (applyShearTransform north direction
                      (or_default shearAmount DIAGONAL_SHEAR_AMOUNT), [])))
       \<and> (direction = ''se'' \<or> direction = ''sw'' \<longrightarrow>
            generateDiagonal (Some sheet) direction shearAmount =
              (case extractRow sheet 0 of
                 Inl err \<Rightarrow> (Inl err, [])
               | Inr south \<Rightarrow>
                   (applyShearTransform south direction
                      (or_default shearAmount DIAGONAL_SHEAR_AMOUNT), [])))"
  using generateDiagonal_lpc [OF assms, of direction shearAmount] by auto

theorem generateDiagonal_row_selection_witness:
  "height sheet256 mod 4 = 0 \<and> 256 \<le> height sheet256
   \<and> generateDiagonal (Some sheet256) ''nw'' (Some (1 / 4)) =
       (case extractRow sheet256 2 of
          Inl err \<Rightarrow> (Inl err, [])
        | Inr north \<Rightarrow> (applyShearTransform north ''nw'' (1 / 4), []))
   \<and> generateDiagonal (Some sheet256) ''se'' (Some (1 / 4)) =
       (case extractRow sheet256 0 of
          Inl err \<Rightarrow> (Inl err, [])
        | Inr south \<Rightarrow> (applyShearTransform south ''se'' (1 / 4), []))"
proof -
  have h: "height sheet256 mod 4 = 0" "256 \<le> height sheet256"
    by (simp_all add: sheet256_def)
  show ?thesis
    using h generateDiagonal_row_selection [OF h, of "''nw''" "Some (1 / 4)"]
      generateDiagonal_row_selection [OF h, of "''se''" "Some (1 / 4)"]
    by (simp add: or_default_def split: sum.splits)
qed

text \<open>
  C3. On a buffer with pixels whose height is not a multiple of 4 or is below 256,
  \<^verbatim>\<open>generateDiagonal\<close> raises nothing: it writes the warning and returns the shear of the
  whole buffer, which has the width and the height of the input. (A buffer with a zero
  dimension is the invalid input of C9.)
\<close>

theorem generateDiagonal_fallback_whole_buffer:
  assumes "height buf mod 4 \<noteq> 0 \<or> height buf < 256" and "0 < width buf" and "0 < height buf"
  shows "\<exists>out. generateDiagonal (Some buf) direction shearAmount = (Inr out, [lpc_warning])
           \<and> applyShearTransform buf direction
                 (or_default shearAmount DIAGONAL_SHEAR_AMOUNT) = Inr out
           \<and> width out = width buf \<and> height out = height buf"
proof -
  have notlpc: "\<not> (height buf mod 4 = 0 \<and> 256 \<le> height buf)"
    using assms(1) by auto
  obtain out where "applyShearTransform buf direction
        (or_default shearAmount DIAGONAL_SHEAR_AMOUNT) = Inr out"
      "width out = width buf" "height out = height buf"
    using applyShearTransform_returns [OF assms(2,3)] by blast
  then show ?thesis
    using generateDiagonal_fallback [OF assms(2,3) notlpc, of direction shearAmount] by simp
qed

theorem generateDiagonal_fallback_whole_buffer_witness:
  "height strip5 mod 4 \<noteq> 0 \<and> height strip5 < 256 \<and> 0 < width strip5 \<and> 0 < height strip5
   \<and> (\<exists>out. generateDiagonal (Some strip5) ''ne'' None = (Inr out, [lpc_warning])
         \<and> applyShearTransform strip5 ''ne'' (15 / 100) = Inr out
         \<and> width out = 3 \<and> height out = 5)"
proof -
  have h: "height strip5 mod 4 \<noteq> 0 \<or> height strip5 < 256" "0 < width strip5" "0 < height strip5"
    by (simp_all add: strip5_def)
  have "height strip5 mod 4 \<noteq> 0" "height strip5 < 256"
    by (simp_all add: strip5_def)
  then show ?thesis
    using h generateDiagonal_fallback_whole_buffer [OF h, of "''ne''" None]
    by (simp add: or_default_def DIAGONAL_SHEAR_AMOUNT_def strip5_def)
qed

text \<open>
  C9, as the code has it. \<^verbatim>\<open>generateDiagonal\<close> has no check of its own and no error of its
  own. An absent image fails where \<^verbatim>\<open>img.width\<close> is read (\<^verbatim>\<open>TypeError\<close>); a canvas with a zero
  dimension fails in \<^verbatim>\<open>drawImage\<close> (\<^verbatim>\<open>InvalidStateError\<close>); a buffer with pixels gives a
  buffer for every direction token, inside the enumeration or not.
\<close>

theorem generateDiagonal_failures:
  "fst (generateDiagonal None direction shearAmount) = Inl TypeError
   \<and> (width buf = 0 \<or> height buf = 0 \<longrightarrow>
        fst (generateDiagonal (Some buf) direction shearAmount) = Inl InvalidStateError)
   \<and> (0 < width buf \<and> 0 < height buf \<longrightarrow>
        (\<exists>out. fst (generateDiagonal (Some buf) direction shearAmount) = Inr out))"
proof (intro conjI impI)
  show "fst (generateDiagonal None direction shearAmount) = Inl TypeError"
    by (simp add: generateDiagonal_absent)
next
  assume "width buf = 0 \<or> height buf = 0"
  then show "fst (generateDiagonal (Some buf) direction shearAmount) = Inl InvalidStateError"
    by (simp add: generateDiagonal_empty)
next
  assume "0 < width buf \<and> 0 < height buf"
  then obtain out where "generateDiagonal (Some buf) direction shearAmount =
      (Inr out, if height buf mod 4 = 0 \<and> 256 \<le> height buf then [] else [lpc_warning])"
    using generateDiagonal_returns [of buf direction shearAmount] by blast
  then show "\<exists>out. fst (generateDiagonal (Some buf) direction shearAmount) = Inr out"
    by simp
qed

theorem generateDiagonal_failures_witness:
  "fst (generateDiagonal None ''ne'' None) = Inl TypeError
   \<and> (width empty_canvas = 0 \<or> height empty_canvas = 0)
   \<and> fst (generateDiagonal (Some empty_canvas) ''ne'' None) = Inl InvalidStateError
   \<and> 0 < width sheet256 \<and> 0 < height sheet256
   \<and> (\<exists>out. fst (generateDiagonal (Some sheet256) ''up'' None) = Inr out)"
proof -
  have e: "width empty_canvas = 0 \<or> height empty_canvas = 0"
    by (simp add: empty_canvas_def)
  have p: "0 < width sheet256 \<and> 0 < height sheet256"
    by (simp add: sheet256_def)
  show ?thesis
    using e p generateDiagonal_failures [of "''ne''" None empty_canvas]
      generateDiagonal_failures [of "''up''" None sheet256]
    by blast
qed

text \<open>
  The claim C9 as the specification states it fails: the token \<^verbatim>\<open>up\<close> is outside the
  enumeration, and the call on an LPC sheet is not an error.
\<close>

theorem generateDiagonal_unknown_direction_counterexample:
  "\<not> isl (fst (generateDiagonal (Some sheet256) ''up'' None))"
proof -
  have "0 < width sheet256" "0 < height sheet256"
    by (simp_all add: sheet256_def)
  then obtain out where "generateDiagonal (Some sheet256) ''up'' None =
      (Inr out, if height sheet256 mod 4 = 0 \<and> 256 \<le> height sheet256 then [] else [lpc_warning])"
    using generateDiagonal_returns [of sheet256 "''up''" None] by blast
  then show ?thesis
    by simp
qed



section \<open>The batch entry points\<close>

lemma and_then_Inr:
  assumes "and_then m k = (Inr obj, out)"
  obtains v o1 o2 where "m = (Inr v, o1)" "k v = (Inr obj, o2)" "out = o1 @ o2"
  using assms by (auto simp add: and_then_def split: prod.splits sum.splits)

lemma and_then_value:
  assumes "m = (Inr v, o1)"
  shows "and_then m k = (fst (k v), o1 @ snd (k v))"
  using assms by (simp add: and_then_def split: prod.splits)

lemma quiet_Inr: "quiet r = (Inr v, out) \<Longrightarrow> r = Inr v \<and> out = []"
  by (auto simp add: quiet_def)

lemma generateAllDiagonals_keys:
  assumes "generateAllDiagonals src s = (Inr obj, out)"
  shows "map fst obj = [''ne'', ''nw'', ''se'', ''sw'']"
proof -
  from assms show ?thesis
    unfolding generateAllDiagonals_def Let_def
    by (elim and_then_Inr) (auto dest!: quiet_Inr)
qed

lemma generateAll8Directions_keys:
  assumes "generateAll8Directions src s = (Inr obj, out)"
  shows "map fst obj = [''n'', ''e'', ''s'', ''w'', ''ne'', ''nw'', ''se'', ''sw'']"
proof (cases src)
  case None
  then show ?thesis
    using assms by (simp add: generateAll8Directions_def)
next
  case (Some img)
  show ?thesis
    using assms unfolding Some generateAll8Directions_def Let_def option.case
    by (elim and_then_Inr) (auto dest!: quiet_Inr)
qed

lemma generateAllDiagonals_value:
  assumes "generateDiagonal src ''ne'' (Some (or_default s DIAGONAL_SHEAR_AMOUNT)) = (Inr ne, o1)"
    and "generateDiagonal src ''nw'' (Some (or_default s DIAGONAL_SHEAR_AMOUNT)) = (Inr nw, o2)"
    and "generateDiagonal src ''se'' (Some (or_default s DIAGONAL_SHEAR_AMOUNT)) = (Inr se, o3)"
    and "generateDiagonal src ''sw'' (Some (or_default s DIAGONAL_SHEAR_AMOUNT)) = (Inr sw, o4)"
  shows "generateAllDiagonals src s =
           (Inr [(''ne'', ne), (''nw'', nw), (''se'', se), (''sw'', sw)], o1 @ o2 @ o3 @ o4)"
  by (simp add: generateAllDiagonals_def Let_def and_then_def quiet_def assms)

lemma generateAll8Directions_value:
  assumes "0 < width cv" "0 < height cv"
    and "extractRow cv 2 = Inr n" "extractRow cv 3 = Inr e"
    and "extractRow cv 0 = Inr s" "extractRow cv 1 = Inr w"
    and "generateDiagonal (Some cv) ''ne'' (Some (or_default a DIAGONAL_SHEAR_AMOUNT)) = (Inr ne, o1)"
    and "generateDiagonal (Some cv) ''nw'' (Some (or_default a DIAGONAL_SHEAR_AMOUNT)) = (Inr nw, o2)"
    and "generateDiagonal (Some cv) ''se'' (Some (or_default a DIAGONAL_SHEAR_AMOUNT)) = (Inr se, o3)"
    and "generateDiagonal (Some cv) ''sw'' (Some (or_default a DIAGONAL_SHEAR_AMOUNT)) = (Inr sw, o4)"
  shows "generateAll8Directions (Some cv) a =
           (Inr [(''n'', n), (''e'', e), (''s'', s), (''w'', w),
                 (''ne'', ne), (''nw'', nw), (''se'', se), (''sw'', sw)], o1 @ o2 @ o3 @ o4)"
  by (simp add: generateAll8Directions_def Let_def and_then_def quiet_def
        copy_canvas [OF assms(1,2)] canvas_of_getContext extractRow_snapshot assms(3-)
      del: One_nat_def)

lemma generateAllDiagonals_returns:
  assumes "0 < width cv" "0 < height cv"
  shows "\<exists>obj out. generateAllDiagonals (Some cv) a = (Inr obj, out)"
proof -
  obtain ne nw se sw o1 o2 o3 o4 where
    "generateDiagonal (Some cv) ''ne'' (Some (or_default a DIAGONAL_SHEAR_AMOUNT)) = (Inr ne, o1)"
    "generateDiagonal (Some cv) ''nw'' (Some (or_default a DIAGONAL_SHEAR_AMOUNT)) = (Inr nw, o2)"
    "generateDiagonal (Some cv) ''se'' (Some (or_default a DIAGONAL_SHEAR_AMOUNT)) = (Inr se, o3)"
    "generateDiagonal (Some cv) ''sw'' (Some (or_default a DIAGONAL_SHEAR_AMOUNT)) = (Inr sw, o4)"
    using generateDiagonal_returns [OF assms] by metis
  then show ?thesis
    using generateAllDiagonals_value by blast
qed

lemma generateAll8Directions_returns:
  assumes "0 < width cv" "0 < height cv"
  shows "\<exists>obj out n e s w. generateAll8Directions (Some cv) a = (Inr obj, out)
           \<and> extractRow cv 2 = Inr n \<and> map_of obj ''n'' = Some n
           \<and> extractRow cv 3 = Inr e \<and> map_of obj ''e'' = Some e
           \<and> extractRow cv 0 = Inr s \<and> map_of obj ''s'' = Some s
           \<and> extractRow cv 1 = Inr w \<and> map_of obj ''w'' = Some w"
proof -
  obtain n e s w where rows: "extractRow cv 2 = Inr n" "extractRow cv 3 = Inr e"
      "extractRow cv 0 = Inr s" "extractRow cv 1 = Inr w"
    using extractRow_returns [OF assms] by metis
  obtain ne nw se sw o1 o2 o3 o4 where diag:
    "generateDiagonal (Some cv) ''ne'' (Some (or_default a DIAGONAL_SHEAR_AMOUNT)) = (Inr ne, o1)"
    "generateDiagonal (Some cv) ''nw'' (Some (or_default a DIAGONAL_SHEAR_AMOUNT)) = (Inr nw, o2)"
    "generateDiagonal (Some cv) ''se'' (Some (or_default a DIAGONAL_SHEAR_AMOUNT)) = (Inr se, o3)"
    "generateDiagonal (Some cv) ''sw'' (Some (or_default a DIAGONAL_SHEAR_AMOUNT)) = (Inr sw, o4)"
    using generateDiagonal_returns [OF assms] by metis
  have "generateAll8Directions (Some cv) a =
          (Inr [(''n'', n), (''e'', e), (''s'', s), (''w'', w),
                (''ne'', ne), (''nw'', nw), (''se'', se), (''sw'', sw)], o1 @ o2 @ o3 @ o4)"
    using generateAll8Directions_value [OF assms rows diag] .
  moreover have "map_of [(''n'', n), (''e'', e), (''s'', s), (''w'', w),
                (''ne'', ne), (''nw'', nw), (''se'', se), (''sw'', sw)] ''n'' = Some n"
      "map_of [(''n'', n), (''e'', e), (''s'', s), (''w'', w),
                (''ne'', ne), (''nw'', nw), (''se'', se), (''sw'', sw)] ''e'' = Some e"
      "map_of [(''n'', n), (''e'', e), (''s'', s), (''w'', w),
                (''ne'', ne), (''nw'', nw), (''se'', se), (''sw'', sw)] ''s'' = Some s"
      "map_of [(''n'', n), (''e'', e), (''s'', s), (''w'', w),
                (''ne'', ne), (''nw'', nw), (''se'', se), (''sw'', sw)] ''w'' = Some w"
    by simp_all
  ultimately show ?thesis
    using rows by metis
qed

text \<open>
  C7. Whenever \<^verbatim>\<open>generateAllDiagonals\<close> returns, the object has exactly the keys \<^verbatim>\<open>ne\<close>,
  \<^verbatim>\<open>nw\<close>, \<^verbatim>\<open>se\<close>, \<^verbatim>\<open>sw\<close>; whenever \<^verbatim>\<open>generateAll8Directions\<close> returns, it has exactly
  the eight keys \<^verbatim>\<open>n\<close>, \<^verbatim>\<open>e\<close>, \<^verbatim>\<open>s\<close>, \<^verbatim>\<open>w\<close>, \<^verbatim>\<open>ne\<close>, \<^verbatim>\<open>nw\<close>, \<^verbatim>\<open>se\<close>, \<^verbatim>\<open>sw\<close>. Both return on
  every buffer that has pixels. On an LPC sheet the entries \<^verbatim>\<open>n\<close>, \<^verbatim>\<open>e\<close>, \<^verbatim>\<open>s\<close>, \<^verbatim>\<open>w\<close> are
  the results of \<^verbatim>\<open>extractRow\<close> on rows 2, 3, 0, 1 of the sheet.
\<close>

theorem generateAll_keys_and_cardinals:
  "(\<forall>obj out. generateAllDiagonals src a = (Inr obj, out) \<longrightarrow>
       map fst obj = [''ne'', ''nw'', ''se'', ''sw''])
   \<and> (\<forall>obj out. generateAll8Directions src a = (Inr obj, out) \<longrightarrow>
       map fst obj = [''n'', ''e'', ''s'', ''w'', ''ne'', ''nw'', ''se'', ''sw''])
   \<and> (0 < width cv \<and> 0 < height cv \<longrightarrow>
        (\<exists>obj out. generateAllDiagonals (Some cv) a = (Inr obj, out))
      \<and> (\<exists>obj out. generateAll8Directions (Some cv) a = (Inr obj, out)))
   \<and> (height cv mod 4 = 0 \<and> 256 \<le> height cv \<and> 0 < width cv \<longrightarrow>
        (\<exists>obj out n e s w. generateAll8Directions (Some cv) a = (Inr obj, out)
           \<and> extractRow cv 2 = Inr n \<and> map_of obj ''n'' = Some n
           \<and> extractRow cv 3 = Inr e \<and> map_of obj ''e'' = Some e
           \<and> extractRow cv 0 = Inr s \<and> map_of obj ''s'' = Some s
           \<and> extractRow cv 1 = Inr w \<and> map_of obj ''w'' = Some w))"
proof (intro conjI allI impI)
  fix obj out
  assume "generateAllDiagonals src a = (Inr obj, out)"
  then show "map fst obj = [''ne'', ''nw'', ''se'', ''sw'']"
    by (rule generateAllDiagonals_keys)
next
  fix obj out
  assume "generateAll8Directions src a = (Inr obj, out)"
  then show "map fst obj = [''n'', ''e'', ''s'', ''w'', ''ne'', ''nw'', ''se'', ''sw'']"
    by (rule generateAll8Directions_keys)
next
  assume "0 < width cv \<and> 0 < height cv"
  then show "\<exists>obj out. generateAllDiagonals (Some cv) a = (Inr obj, out)"
    using generateAllDiagonals_returns by blast
next
  assume "0 < width cv \<and> 0 < height cv"
  then show "\<exists>obj out. generateAll8Directions (Some cv) a = (Inr obj, out)"
    using generateAll8Directions_returns [of cv a] by blast
next
  assume "height cv mod 4 = 0 \<and> 256 \<le> height cv \<and> 0 < width cv"
  then have "0 < width cv" "0 < height cv"
    by simp_all
  then show "\<exists>obj out n e s w. generateAll8Directions (Some cv) a = (Inr obj, out)
           \<and> extractRow cv 2 = Inr n \<and> map_of obj ''n'' = Some n
           \<and> extractRow cv 3 = Inr e \<and> map_of obj ''e'' = Some e
           \<and> extractRow cv 0 = Inr s \<and> map_of obj ''s'' = Some s
           \<and> extractRow cv 1 = Inr w \<and> map_of obj ''w'' = Some w"
    by (rule generateAll8Directions_returns)
qed

theorem generateAll_keys_and_cardinals_witness:
  "0 < width sheet256 \<and> 0 < height sheet256 \<and> height sheet256 mod 4 = 0 \<and> 256 \<le> height sheet256
   \<and> (\<exists>obj out. generateAllDiagonals (Some sheet256) None = (Inr obj, out)
         \<and> map fst obj = [''ne'', ''nw'', ''se'', ''sw''])
   \<and> (\<exists>obj out n e s w. generateAll8Directions (Some sheet256) None = (Inr obj, out)
         \<and> map fst obj = [''n'', ''e'', ''s'', ''w'', ''ne'', ''nw'', ''se'', ''sw'']
         \<and> extractRow sheet256 2 = Inr n \<and> map_of obj ''n'' = Some n
         \<and> extractRow sheet256 3 = Inr e \<and> map_of obj ''e'' = Some e
         \<and> extractRow sheet256 0 = Inr s \<and> map_of obj ''s'' = Some s
         \<and> extractRow sheet256 1 = Inr w \<and> map_of obj ''w'' = Some w)"
proof -
  note t = generateAll_keys_and_cardinals [of "Some sheet256" None sheet256]
  have h: "0 < width sheet256" "0 < height sheet256" "height sheet256 mod 4 = 0"
      "256 \<le> height sheet256"
    by (simp_all add: sheet256_def)
  obtain obj4 out4 where four: "generateAllDiagonals (Some sheet256) None = (Inr obj4, out4)"
    using t h by blast
  then have keys4: "map fst obj4 = [''ne'', ''nw'', ''se'', ''sw'']"
    using t by blast
  obtain obj8 out8 n e s w where eight: "generateAll8Directions (Some sheet256) None = (Inr obj8, out8)"
      "extractRow sheet256 2 = Inr n" "map_of obj8 ''n'' = Some n"
      "extractRow sheet256 3 = Inr e" "map_of obj8 ''e'' = Some e"
      "extractRow sheet256 0 = Inr s" "map_of obj8 ''s'' = Some s"
      "extractRow sheet256 1 = Inr w" "map_of obj8 ''w'' = Some w"
    using t h by blast
  then have keys8: "map fst obj8 = [''n'', ''e'', ''s'', ''w'', ''ne'', ''nw'', ''se'', ''sw'']"
    using t by blast
  have A: "\<exists>obj out. generateAllDiagonals (Some sheet256) None = (Inr obj, out)
         \<and> map fst obj = [''ne'', ''nw'', ''se'', ''sw'']"
    by (intro exI conjI) (rule four, rule keys4)
  have B: "\<exists>obj out n e s w. generateAll8Directions (Some sheet256) None = (Inr obj, out)
         \<and> map fst obj = [''n'', ''e'', ''s'', ''w'', ''ne'', ''nw'', ''se'', ''sw'']
         \<and> extractRow sheet256 2 = Inr n \<and> map_of obj ''n'' = Some n
         \<and> extractRow sheet256 3 = Inr e \<and> map_of obj ''e'' = Some e
         \<and> extractRow sheet256 0 = Inr s \<and> map_of obj ''s'' = Some s
         \<and> extractRow sheet256 1 = Inr w \<and> map_of obj ''w'' = Some w"
    by (intro exI conjI) (rule eight(1), rule keys8, (rule eight)+)
  show ?thesis
    by (intro conjI h A B)
qed

section \<open>The direction of the shear\<close>

lemma unmap_apply_matrix:
  assumes "m_a m * m_d m - m_b m * m_c m \<noteq> 0"
  shows "unmap m (apply_matrix m (x, y)) = Some (x, y)"
  using assms by (simp add: unmap_def apply_matrix_def Let_def field_simps)

lemma right_matrix_maps:
  "apply_matrix (ctm (transform (getContext cv) 1 s 0 1 0 0)) (x, y) = (x, s * x + y)"
  by (simp add: apply_matrix_def transform_def getContext_def multiply_def identity_def)

lemma left_matrix_maps:
  "apply_matrix (ctm (transform (getContext cv) 1 (- s) 0 1 t 0)) (x, y) = (x + t, y - s * x)"
  by (simp add: apply_matrix_def transform_def getContext_def multiply_def identity_def)

text \<open>
  C1 on the code. The header of the file and the comments of \<^verbatim>\<open>applyShearTransform\<close> promise
  a horizontal shear, \<open>x' = x + shearAmount * y\<close>. The call
  \<^verbatim>\<open>ctx.transform(1, shearAmount, 0, 1, 0, 0)\<close> passes the amount as \<open>b\<close>, which by the
  comment beside it gives \<open>x' = x\<close>, \<open>y' = shearAmount * x + y\<close>. On the 8 by 8 buffer with
  one opaque pixel at \<open>(4, 4)\<close>, direction \<^verbatim>\<open>ne\<close> and amount \<open>1/4\<close>, a horizontal shear would
  show the pixel at \<open>(5, 4)\<close>; the output has it at \<open>(4, 5)\<close>, and nothing at \<open>(5, 4)\<close>.
\<close>

theorem applyShearTransform_moves_down_not_right:
  "\<exists>out. applyShearTransform dot8 ''ne'' (1 / 4) = Inr out
     \<and> getPixel out 5 4 = transparent
     \<and> getPixel out 4 4 = transparent
     \<and> getPixel out 4 5 = black"
proof -
  have h: "0 < width dot8" "0 < height dot8" "''ne'' = ''ne'' \<or> ''ne'' = ''se''"
    by (simp_all add: dot8_def)
  show ?thesis
    unfolding applyShearTransform_right [OF h]
    by (simp add: getPixel_def dot8_def black_def transparent_def)
qed

text \<open>
  C6 as the specification states it fails. The 4 by 2 buffer that is opaque everywhere is
  symmetric; with amount \<open>1/4\<close> the leftward branch moves the picture right by
  \<open>offset = 4 * 1/4 = 1\<close> pixel and leaves column 0 transparent, while the last column of
  the rightward output is opaque in row 1.
\<close>

theorem shear_mirror_counterexample:
  "hsymmetric solid4
   \<and> \<not> isl (applyShearTransform solid4 ''ne'' (1 / 4))
   \<and> \<not> isl (applyShearTransform solid4 ''nw'' (1 / 4))
   \<and> \<not> mirror_images (projr (applyShearTransform solid4 ''ne'' (1 / 4)))
                       (projr (applyShearTransform solid4 ''nw'' (1 / 4)))"
proof -
  have h: "0 < width solid4" "0 < height solid4"
    by (simp_all add: solid4_def)
  have r: "''ne'' = ''ne'' \<or> ''ne'' = ''se''" and l: "''nw'' \<noteq> ''ne''" "''nw'' \<noteq> ''se''"
    by simp_all
  have sym: "hsymmetric solid4"
    by (simp add: hsymmetric_def solid4_def)
  obtain R where R: "applyShearTransform solid4 ''ne'' (1 / 4) = Inr R"
      and Rdim: "width R = 4" "height R = 2" and R31: "bitmap R 3 1 = black"
    using applyShearTransform_right [OF h r, of "1 / 4"] by (simp add: solid4_def)
  obtain L where L: "applyShearTransform solid4 ''nw'' (1 / 4) = Inr L"
      and L01: "bitmap L 0 1 = transparent"
    using applyShearTransform_left [OF h l, of "1 / 4"] by (simp add: solid4_def)
  have "\<not> mirror_images R L"
  proof
    assume "mirror_images R L"
    then have a: "\<forall>x \<in> {..<width R}. \<forall>y \<in> {..<height R}. bitmap L x y = bitmap R (width R - 1 - x) y"
      unfolding mirror_images_def by (elim conjE)
    have in0: "(0::nat) \<in> {..<width R}" and in1: "(1::nat) \<in> {..<height R}"
      using Rdim by simp_all
    have "bitmap L 0 1 = bitmap R (width R - 1 - 0) 1"
      by (rule bspec [OF bspec [OF a in0] in1])
    then have "transparent = black"
      using L01 R31 Rdim by simp
    then show False
      by (simp add: transparent_def black_def)
  qed
  then show ?thesis
    unfolding R L using sym by simp
qed

text \<open>
  C6, amended. With shear amount 0 the rightward (\<^verbatim>\<open>ne\<close>, \<^verbatim>\<open>se\<close>) and the leftward
  (\<^verbatim>\<open>nw\<close>, \<^verbatim>\<open>sw\<close>) output of a horizontally symmetric buffer are mirror images of each
  other: both are the source.
\<close>

theorem shear_mirror_at_zero:
  assumes "hsymmetric cv" and "0 < width cv" and "0 < height cv"
    and "right = ''ne'' \<or> right = ''se''" and "left = ''nw'' \<or> left = ''sw''"
  shows "\<exists>r l. applyShearTransform cv right 0 = Inr r
           \<and> applyShearTransform cv left 0 = Inr l
           \<and> mirror_images r l"
proof -
  have flip: "bitmap (snapshot cv) x y = bitmap (snapshot cv) (width (snapshot cv) - 1 - x) y"
    if "x \<in> {..<width (snapshot cv)}" and "y \<in> {..<height (snapshot cv)}" for x y
  proof -
    have x: "x \<in> {..<width cv}" and y: "y \<in> {..<height cv}"
      using that by (simp_all add: snapshot_def)
    have "\<forall>x \<in> {..<width cv}. \<forall>y \<in> {..<height cv}. bitmap cv x y = bitmap cv (width cv - 1 - x) y"
      using assms(1) unfolding hsymmetric_def .
    then have "bitmap cv x y = bitmap cv (width cv - 1 - x) y"
      using x y by blast
    moreover have "x < width cv" "y < height cv" "width cv - 1 - x < width cv"
      using x y by auto
    ultimately show ?thesis
      by (simp add: snapshot_def getPixel_def)
  qed
  have "mirror_images (snapshot cv) (snapshot cv)"
    unfolding mirror_images_def using flip by blast
  then show ?thesis
    using applyShearTransform_zero [OF assms(2,3)] by simp
qed

theorem shear_mirror_at_zero_witness:
  "hsymmetric solid4 \<and> 0 < width solid4 \<and> 0 < height solid4
   \<and> (''se'' = ''ne'' \<or> ''se'' = ''se'') \<and> (''sw'' = ''nw'' \<or> ''sw'' = ''sw'')
   \<and> (\<exists>r l. applyShearTransform solid4 ''se'' 0 = Inr r
         \<and> applyShearTransform solid4 ''sw'' 0 = Inr l
         \<and> mirror_images r l)"
proof -
  have h: "hsymmetric solid4" "0 < width solid4" "0 < height solid4"
      "''se'' = ''ne'' \<or> ''se'' = ''se''" "''sw'' = ''nw'' \<or> ''sw'' = ''sw''"
    by (simp_all add: hsymmetric_def solid4_def)
  show ?thesis
    by (intro conjI h shear_mirror_at_zero [OF h])
qed

end
